theory Spec2Isabelle
  imports Main "HOL-Library.Sublist"
begin

section \<open>Python strings\<close>

text \<open>
  A Python \<open>str\<close> is a sequence of Unicode code points; a code point is modelled as a
  natural number. \<open>py\<close> reads an ASCII literal of the source as such a sequence.
\<close>

type_synonym str = "nat list"

abbreviation py :: "string \<Rightarrow> str" where
  "py s \<equiv> map of_char s"

text \<open>
  \<open>str.isspace\<close> on one code point: the code points Python treats as whitespace
  (the ASCII controls TAB..CR and FS..US, the space, NEL, NBSP and the Unicode spaces).
\<close>

definition isspace :: "nat \<Rightarrow> bool" where
  "isspace c \<longleftrightarrow>
     (0x09 \<le> c \<and> c \<le> 0x0D) \<or> (0x1C \<le> c \<and> c \<le> 0x1F) \<or> c = 0x20 \<or>
     c = 0x85 \<or> c = 0xA0 \<or> c = 0x1680 \<or> (0x2000 \<le> c \<and> c \<le> 0x200A) \<or>
     c = 0x2028 \<or> c = 0x2029 \<or> c = 0x202F \<or> c = 0x205F \<or> c = 0x3000"

text \<open>\<open>text.strip()\<close>: drop the leading and the trailing whitespace.\<close>

definition strip :: "str \<Rightarrow> str" where
  "strip s = rev (dropWhile isspace (rev (dropWhile isspace s)))"

text \<open>
  \<open>text.upper()\<close> maps every code point to its uppercase form, which may be several
  code points. On ASCII it turns \<open>a..z\<close> into \<open>A..Z\<close> and leaves the rest alone; the
  mapping of the code points from U+0080 on is the Unicode table, taken as the
  parameter \<open>uc\<close>.
\<close>

definition upper_cp :: "(nat \<Rightarrow> str) \<Rightarrow> nat \<Rightarrow> str" where
  "upper_cp uc c =
     (if 0x61 \<le> c \<and> c \<le> 0x7A then [c - 0x20] else if c < 0x80 then [c] else uc c)"

definition upper :: "(nat \<Rightarrow> str) \<Rightarrow> str \<Rightarrow> str" where
  "upper uc s = concat (map (upper_cp uc) s)"

text \<open>\<open>sub in s\<close> on strings: \<open>sub\<close> occurs in \<open>s\<close> as a contiguous substring.\<close>

fun str_in :: "str \<Rightarrow> str \<Rightarrow> bool" where
  "str_in sub [] = (sub = [])"
| "str_in sub (c # cs) = (prefix sub (c # cs) \<or> str_in sub cs)"

section \<open>Exceptions, the console and the model client\<close>

text \<open>
  The exceptions that \<open>except Exception\<close> catches: one raised with a message, and the
  \<open>UnicodeEncodeError\<close> that writing to the console raises, with the text written and
  the start and the end of the part that could not be encoded.
\<close>

datatype exn = Exception str | UnicodeEncodeError str nat nat

text \<open>Decimal and lowercase hexadecimal digits, as the messages of Python print them.\<close>

fun dec :: "nat \<Rightarrow> str" where
  "dec n = (if n < 10 then [0x30 + n] else dec (n div 10) @ [0x30 + n mod 10])"

declare dec.simps [simp del]

definition hexdigit :: "nat \<Rightarrow> nat" where
  "hexdigit d = (if d < 10 then 0x30 + d else 0x57 + d)"

definition hex2 :: "nat \<Rightarrow> str" where
  "hex2 c = [hexdigit (c div 16 mod 16), hexdigit (c mod 16)]"

definition hex4 :: "nat \<Rightarrow> str" where
  "hex4 c = hex2 (c div 256) @ hex2 c"

definition hex8 :: "nat \<Rightarrow> str" where
  "hex8 c = hex4 (c div 65536) @ hex4 c"

definition sq :: str where
  "sq = [0x27]"

definition bs :: str where
  "bs = [0x5C]"

text \<open>
  \<open>str(e)\<close>: the message of an exception. For \<open>UnicodeEncodeError\<close> it names the codec,
  the code point (when a single one is at fault) and the position.
\<close>

fun str_of_exn :: "exn \<Rightarrow> str" where
  "str_of_exn (Exception msg) = msg"
| "str_of_exn (UnicodeEncodeError object start stop) =
     (if start < length object \<and> stop = start + 1
      then (let badchar = object ! start
            in sq @ py ''utf-8'' @ sq @ py '' codec can'' @ sq @ py ''t encode character '' @ sq @
               (if badchar \<le> 0xFF then bs @ py ''x'' @ hex2 badchar
                else if badchar \<le> 0xFFFF then bs @ py ''u'' @ hex4 badchar
                else bs @ py ''U'' @ hex8 badchar) @
               sq @ py '' in position '' @ dec start @ py '': surrogates not allowed'')
      else sq @ py ''utf-8'' @ sq @ py '' codec can'' @ sq @ py ''t encode characters in position '' @
           dec start @ py ''-'' @ dec (stop - 1) @ py '': surrogates not allowed'')"

text \<open>
  The console is \<open>sys.stdout\<close> with Python's default, the strict UTF-8 codec: it
  encodes every code point but the surrogates U+D800..U+DFFF. Writing a text with a
  surrogate raises \<open>UnicodeEncodeError\<close> for the first run of surrogates in it.
\<close>

definition encodable :: "nat \<Rightarrow> bool" where
  "encodable c \<longleftrightarrow> c < 0xD800 \<or> 0xDFFF < c"

definition encode_error :: "str \<Rightarrow> exn option" where
  "encode_error text =
     (let start = length (takeWhile encodable text);
          stop = start + length (takeWhile (\<lambda>c. \<not> encodable c) (drop start text))
      in if start = length text then None else Some (UnicodeEncodeError text start stop))"

text \<open>
  \<open>llm.invoke([HumanMessage(content=prompt)])\<close> either raises or returns a message
  whose \<open>content\<close> is a string; \<open>Inl\<close> stands for every exception raised while the
  answer is obtained. The client is outside the program: its outcome is a
  function of the prompts sent before and of the prompt sent now, so that every
  sequence of outcomes is covered. The list of the prompts sent so far is the
  state threaded through the program; a call appends its prompt. What is written to
  the console is not recorded: a \<open>print\<close> either succeeds or raises.
\<close>

type_synonym chat_model = "str list \<Rightarrow> str \<Rightarrow> exn + str"

type_synonym 'a io = "str list \<Rightarrow> (exn + 'a) \<times> str list"

definition return_io :: "'a \<Rightarrow> 'a io" where
  "return_io v calls = (Inr v, calls)"

definition bind_io :: "'a io \<Rightarrow> ('a \<Rightarrow> 'b io) \<Rightarrow> 'b io" where
  "bind_io m f calls =
     (case m calls of (Inr v, calls') \<Rightarrow> f v calls' | (Inl e, calls') \<Rightarrow> (Inl e, calls'))"

text \<open>\<open>try: body except Exception as e: handler\<close>.\<close>

definition try_except :: "'a io \<Rightarrow> (exn \<Rightarrow> 'a io) \<Rightarrow> 'a io" where
  "try_except body handler calls =
     (case body calls of (Inr v, calls') \<Rightarrow> (Inr v, calls') | (Inl e, calls') \<Rightarrow> handler e calls')"

definition py_print :: "str \<Rightarrow> unit io" where
  "py_print text calls = (case encode_error text of None \<Rightarrow> Inr () | Some e \<Rightarrow> Inl e, calls)"

definition llm_invoke :: "chat_model \<Rightarrow> str \<Rightarrow> str io" where
  "llm_invoke llm prompt calls = (llm calls prompt, calls @ [prompt])"

section \<open>Configuration and state\<close>

definition CALENDLY_LINK :: str where
  "CALENDLY_LINK = py ''https://cal.com/demo-link''"

text \<open>
  \<open>AgentState\<close>: the nodes read \<open>history\<close> with \<open>state.get('history', ...)\<close>, so it may
  be absent; the other fields are read with \<open>state[...]\<close>.
\<close>

record AgentState =
  email_content :: str
  history :: "str option"
  category :: str
  generated_reply :: str

text \<open>\<open>state.get('history', 'No previous history.')\<close>, as both nodes read it.\<close>

definition get_history :: "AgentState \<Rightarrow> str" where
  "get_history state =
     (case history state of Some h \<Rightarrow> h | None \<Rightarrow> py ''No previous history.'')"

section \<open>Helper functions\<close>

definition clean_reply :: "str \<Rightarrow> str" where
  "clean_reply text = strip text"

section \<open>Graph nodes\<close>

definition nl :: str where
  "nl = [0x0A]"

definition dq :: str where
  "dq = [0x22]"

definition analyze_prompt :: "str \<Rightarrow> str \<Rightarrow> str" where
  "analyze_prompt history_text email_text =
     nl @ py ''    You are an AI assistant.'' @
     nl @ py ''    Analyze the following email conversation:'' @
     nl @ py ''    '' @
     nl @ py ''    HISTORY: '' @ dq @ history_text @ dq @
     nl @ py ''    CURRENT EMAIL: '' @ dq @ email_text @ dq @
     nl @ py ''    '' @
     nl @ py ''    Categorize into one of: URGENT, LEAD, SPAM, OTHER.'' @
     nl @ py ''    Return ONLY the category name.'' @
     nl @ py ''    ''"

definition valid :: "str list" where
  "valid = [py ''URGENT'', py ''LEAD'', py ''SPAM'', py ''OTHER'']"

text \<open>
  A node returns a partial update of the state, a dict with one key. Node 1 prints
  a banner, then calls the model inside \<open>try\<close>; the \<open>print\<close> of the normalized
  category is inside the \<open>try\<close> as well, and the handler prints the message of the
  exception before it returns the default. The lines printed are named here, as the
  prompts are.
\<close>

type_synonym update = "(string \<times> str) list"

definition analyzing_line :: str where
  "analyzing_line = py ''--- ANALYZING EMAIL ---''"

definition normalized_line :: "str \<Rightarrow> str" where
  "normalized_line category_text = py ''Normalized category: '' @ category_text"

definition error_line :: "str \<Rightarrow> str" where
  "error_line message = py ''Error in analyze_email: '' @ message"

definition analyze_email :: "(nat \<Rightarrow> str) \<Rightarrow> chat_model \<Rightarrow> AgentState \<Rightarrow> update io" where
  "analyze_email uc llm state =
     bind_io (py_print analyzing_line) (\<lambda>_.
       let email_text = email_content state;
           history_text = get_history state;
           prompt = analyze_prompt history_text email_text
       in try_except
            (bind_io (llm_invoke llm prompt) (\<lambda>content.
               let category = upper uc (strip content);
                   category = (if \<not> list_ex (\<lambda>v. str_in v category) valid
                               then py ''OTHER'' else category)
               in bind_io (py_print (normalized_line category)) (\<lambda>_.
                    return_io [(''category'', category)])))
            (\<lambda>e. bind_io (py_print (error_line (str_of_exn e))) (\<lambda>_.
                   return_io [(''category'', py ''OTHER'')])))"

definition draft_prompt :: "str \<Rightarrow> str \<Rightarrow> str \<Rightarrow> str" where
  "draft_prompt category_text history_text email_text =
     nl @ py ''    You are a helpful AI assistant.'' @
     nl @ py ''    Reply to the email based on category: '' @ category_text @
     nl @ py ''    '' @
     nl @ py ''    HISTORY: '' @ dq @ history_text @ dq @
     nl @ py ''    EMAIL: '' @ dq @ email_text @ dq @
     nl @ py ''    '' @
     nl @ py ''    Link to include: '' @ CALENDLY_LINK @
     nl @ py ''    Keep it professional and short.'' @
     nl @ py ''    ''"

text \<open>
  Node 2 prints the category before anything else, outside the \<open>try\<close>; its handler
  prints nothing.
\<close>

definition drafting_line :: "str \<Rightarrow> str" where
  "drafting_line category_text =
     py ''--- DRAFTING REPLY (Category: '' @ category_text @ py '') ---''"

definition draft_reply :: "chat_model \<Rightarrow> AgentState \<Rightarrow> update io" where
  "draft_reply llm state =
     bind_io (py_print (drafting_line (category state))) (\<lambda>_.
       let category = category state;
           email_text = email_content state;
           history_text = get_history state
       in if str_in (py ''SPAM'') category
          then return_io [(''generated_reply'', py ''IGNORE'')]
          else
            (let prompt = draft_prompt category history_text email_text
             in try_except
                  (bind_io (llm_invoke llm prompt) (\<lambda>raw_reply.
                     let cleaned_reply = clean_reply raw_reply
                     in return_io [(''generated_reply'', cleaned_reply)]))
                  (\<lambda>e. return_io
                     [(''generated_reply'',
                       py ''Thank you for your email. We will respond shortly.'')])))"

section \<open>The graph\<close>

text \<open>
  The compiled graph runs \<open>categorizer\<close>, then \<open>writer\<close>, then stops. Running a node
  merges the update it returns into the state; an exception that a node raises ends
  the run.
\<close>

definition lookup_or :: "update \<Rightarrow> string \<Rightarrow> str \<Rightarrow> str" where
  "lookup_or upd k d = (case map_of upd k of Some v \<Rightarrow> v | None \<Rightarrow> d)"

definition apply_update :: "AgentState \<Rightarrow> update \<Rightarrow> AgentState" where
  "apply_update state upd =
     \<lparr> email_content = lookup_or upd ''email_content'' (email_content state),
       history = (case map_of upd ''history'' of Some h \<Rightarrow> Some h | None \<Rightarrow> history state),
       category = lookup_or upd ''category'' (category state),
       generated_reply = lookup_or upd ''generated_reply'' (generated_reply state) \<rparr>"

definition run_node :: "(AgentState \<Rightarrow> update io) \<Rightarrow> AgentState \<Rightarrow> AgentState io" where
  "run_node node state = bind_io (node state) (\<lambda>upd. return_io (apply_update state upd))"

definition categorizer :: "(nat \<Rightarrow> str) \<Rightarrow> chat_model \<Rightarrow> AgentState \<Rightarrow> AgentState io" where
  "categorizer uc llm = run_node (analyze_email uc llm)"

definition writer :: "chat_model \<Rightarrow> AgentState \<Rightarrow> AgentState io" where
  "writer llm = run_node (draft_reply llm)"

definition app_agent :: "(nat \<Rightarrow> str) \<Rightarrow> chat_model \<Rightarrow> AgentState \<Rightarrow> AgentState io" where
  "app_agent uc llm state = bind_io (categorizer uc llm state) (writer llm)"

section \<open>API endpoint\<close>

text \<open>
  \<open>RequestData\<close> has the fields \<open>input\<close> and \<open>history\<close>; they carry a prefix here
  because \<open>history\<close> is a field of \<open>AgentState\<close> as well. A request without
  \<open>history\<close> arrives with the empty string in it.
\<close>

record RequestData =
  req_input :: str
  req_history :: str

definition initial_state :: "RequestData \<Rightarrow> AgentState" where
  "initial_state q =
     \<lparr> email_content = req_input q, history = Some (req_history q),
       category = py '''', generated_reply = py '''' \<rparr>"

text \<open>
  \<open>run_agent\<close> does everything inside \<open>try\<close>: it prints the first 50 characters of
  the input, builds the initial state and runs the compiled graph. The graph runner
  is the argument \<open>agent\<close>, so that a run that raises is covered as well; the program
  passes \<open>app_agent\<close>.
\<close>

definition processing_line :: "str \<Rightarrow> str" where
  "processing_line input_text = py ''Processing email: '' @ take 50 input_text @ py ''...''"

definition run_agent :: "(AgentState \<Rightarrow> AgentState io) \<Rightarrow> RequestData \<Rightarrow> update io" where
  "run_agent agent q =
     try_except
       (bind_io (py_print (processing_line (req_input q))) (\<lambda>_.
          bind_io (agent (initial_state q)) (\<lambda>result.
            return_io [(''status'', py ''success''),
                       (''category'', category result),
                       (''reply'', generated_reply result)])))
       (\<lambda>e. return_io [(''status'', py ''error''), (''detail'', str_of_exn e)])"


section \<open>Sample inputs\<close>

text \<open>
  Concrete inputs for the examples below. The texts that reach \<open>upper\<close> are ASCII,
  so the table \<open>uc_ascii\<close> for the code points from U+0080 on is never consulted on them. \<open>answers r\<close> is a
  client with the outcome \<open>r\<close> for every call, \<open>scripted rs\<close> a client whose n-th call
  has the n-th outcome of \<open>rs\<close> and which raises once the list is used up, and
  \<open>failing_agent e\<close> a graph runner that raises \<open>e\<close>.
\<close>

definition uc_ascii :: "nat \<Rightarrow> str" where
  "uc_ascii c = [c]"

definition answers :: "exn + str \<Rightarrow> chat_model" where
  "answers r calls prompt = r"



definition faucet :: AgentState where
  "faucet =
     \<lparr> email_content = py ''Please fix my leaking faucet ASAP'', history = Some (py ''''),
       category = py '''', generated_reply = py '''' \<rparr>"

definition faucet_request :: RequestData where
  "faucet_request =
     \<lparr> req_input = py ''Please fix my leaking faucet ASAP'', req_history = py '''' \<rparr>"

section \<open>Strings: basic facts\<close>

lemma str_in_iff: "str_in sub s \<longleftrightarrow> (\<exists>p q. s = p @ sub @ q)"
proof (induction s)
  case Nil
  then show ?case by auto
next
  case (Cons c cs)
  have "(\<exists>p q. c # cs = p @ sub @ q) \<longleftrightarrow> prefix sub (c # cs) \<or> (\<exists>p q. cs = p @ sub @ q)"
    using sublist_Cons_right [of sub c cs] by (simp add: sublist_def)
  with Cons show ?case by simp
qed

lemma dropWhile_rev_dropWhile:
  "dropWhile P (rev (dropWhile P (rev (dropWhile P xs)))) = rev (dropWhile P (rev (dropWhile P xs)))"
proof (cases "dropWhile P xs")
  case Nil
  show ?thesis unfolding Nil by simp
next
  case (Cons y ys)
  then have ny: "\<not> P y"
    using hd_dropWhile [of P xs] by simp
  have "rev (dropWhile P (rev (y # ys))) = y # rev (dropWhile P (rev ys))"
    using ny by (simp add: dropWhile_append3)
  then show ?thesis unfolding Cons using ny by simp
qed

lemma strip_strip: "strip (strip s) = strip s"
  by (simp add: strip_def dropWhile_rev_dropWhile)

section \<open>The reply sanitizer\<close>

text \<open>
  C9. \<open>clean_reply\<close> is idempotent: sanitizing a sanitized text leaves it as it is,
  for every input text.
\<close>

theorem clean_reply_idempotent: "clean_reply (clean_reply x) = clean_reply x"
  by (simp add: clean_reply_def strip_strip)

theorem clean_reply_idempotent_witness:
  "clean_reply (clean_reply (py ''  Hi there  '')) = clean_reply (py ''  Hi there  '') \<and>
   clean_reply (py ''  Hi there  '') = py ''Hi there''"
  using clean_reply_idempotent [of "py ''  Hi there  ''"]
  by (simp add: clean_reply_def strip_def isspace_def)

section \<open>The console: basic facts\<close>

lemma encodable_small: "c < 0xD800 \<Longrightarrow> encodable c"
  by (simp add: encodable_def)

lemma encodable_py: "list_all encodable (py s)"
proof -
  have "encodable (of_char c)" for c :: char
  proof (rule encodable_small)
    show "(of_char c :: nat) < 0xD800"
      by (rule order_less_trans [OF nat_of_char_less_256]) simp
  qed
  then show ?thesis
    by (simp add: list_all_iff)
qed

lemma encodable_dec: "list_all encodable (dec n)"
proof (induction n rule: dec.induct)
  case (1 n)
  show ?case
  proof (cases "n < 10")
    case True
    then show ?thesis
      by (subst dec.simps) (simp add: encodable_def)
  next
    case False
    have "n mod 10 < 10"
      by simp
    then have "encodable (0x30 + n mod 10)"
      unfolding encodable_def by linarith
    with False "1.IH" show ?thesis
      by (subst dec.simps) simp
  qed
qed

lemma encodable_hexdigit: "d < 16 \<Longrightarrow> encodable (hexdigit d)"
  by (simp add: hexdigit_def encodable_def)

lemma encodable_hex2: "list_all encodable (hex2 c)"
  by (simp add: hex2_def encodable_hexdigit)

lemma encodable_hex4: "list_all encodable (hex4 c)"
  by (simp add: hex4_def encodable_hex2)

lemma encodable_hex8: "list_all encodable (hex8 c)"
  by (simp add: hex8_def encodable_hex4)

text \<open>The message of a \<open>UnicodeEncodeError\<close> is ASCII, so it can itself be printed.\<close>

lemma encodable_str_of_encode_error:
  "list_all encodable (str_of_exn (UnicodeEncodeError object start stop))"
  by (simp add: Let_def sq_def bs_def encodable_small encodable_dec encodable_hex2
      encodable_hex4 encodable_hex8)

lemma encode_error_None: "list_all encodable text \<Longrightarrow> encode_error text = None"
  by (simp add: encode_error_def Let_def list_all_iff takeWhile_eq_all_conv [THEN iffD2])

lemma encode_error_Some:
  assumes "\<not> list_all encodable text"
  shows "\<exists>start stop. encode_error text = Some (UnicodeEncodeError text start stop)"
proof -
  from assms have "length (takeWhile encodable text) \<noteq> length text"
    by (metis list_all_iff takeWhile_eq_all_conv takeWhile_eq_take take_all_iff le_refl)
  then show ?thesis
    by (simp add: encode_error_def Let_def)
qed

lemma py_print_ok: "list_all encodable text \<Longrightarrow> py_print text calls = (Inr (), calls)"
  by (simp add: py_print_def encode_error_None)

lemma py_print_raises:
  assumes "\<not> list_all encodable text"
  shows "\<exists>start stop. py_print text calls = (Inl (UnicodeEncodeError text start stop), calls)"
  using encode_error_Some [OF assms] by (auto simp add: py_print_def)

section \<open>The nodes, case by case\<close>

lemma apply_update_category:
  "apply_update state [(''category'', c)] = state\<lparr>category := c\<rparr>"
  by (simp add: apply_update_def lookup_or_def)

lemma apply_update_generated_reply:
  "apply_update state [(''generated_reply'', r)] = state\<lparr>generated_reply := r\<rparr>"
  by (simp add: apply_update_def lookup_or_def)

text \<open>Which of the lines printed can be encoded: the literal parts always can.\<close>

lemma encodable_analyzing_line: "list_all encodable analyzing_line"
  unfolding analyzing_line_def by (rule encodable_py)

lemma encodable_normalized_line:
  "list_all encodable (normalized_line c) \<longleftrightarrow> list_all encodable c"
  unfolding normalized_line_def by (simp only: list_all_append encodable_py simp_thms)

lemma encodable_error_line:
  "list_all encodable (error_line m) \<longleftrightarrow> list_all encodable m"
  unfolding error_line_def by (simp only: list_all_append encodable_py simp_thms)

lemma encodable_drafting_line:
  "list_all encodable (drafting_line c) \<longleftrightarrow> list_all encodable c"
  unfolding drafting_line_def by (simp only: list_all_append encodable_py simp_thms)

lemma encodable_processing_line:
  "list_all encodable (processing_line s) \<longleftrightarrow> list_all encodable (take 50 s)"
  unfolding processing_line_def by (simp only: list_all_append encodable_py simp_thms)

lemma encodable_OTHER: "list_all encodable (py ''OTHER'')"
  by (rule encodable_py)

text \<open>
  Node 1 when the client answers: the category is the normalized output, or OTHER
  when that holds no label, and also OTHER when the normalized output cannot be
  printed, since the handler then prints the message of the \<open>UnicodeEncodeError\<close>.
\<close>

lemma analyze_email_returns:
  assumes "llm calls (analyze_prompt (get_history state) (email_content state)) = Inr content"
  shows "analyze_email uc llm state calls =
           (Inr [(''category'',
                  if list_ex (\<lambda>v. str_in v (upper uc (strip content))) valid \<and>
                     list_all encodable (upper uc (strip content))
                  then upper uc (strip content) else py ''OTHER'')],
            calls @ [analyze_prompt (get_history state) (email_content state)])"
proof (cases "list_ex (\<lambda>v. str_in v (upper uc (strip content))) valid")
  case False
  have "py_print (normalized_line (py ''OTHER'')) c = (Inr (), c)" for c
    by (rule py_print_ok) (simp only: encodable_normalized_line encodable_OTHER)
  with assms False show ?thesis
    by (simp add: analyze_email_def bind_io_def try_except_def return_io_def llm_invoke_def
        Let_def py_print_ok encodable_analyzing_line)
next
  case True
  show ?thesis
  proof (cases "list_all encodable (upper uc (strip content))")
    case printable: True
    with assms True show ?thesis
      by (simp add: analyze_email_def bind_io_def try_except_def return_io_def llm_invoke_def
          Let_def py_print_ok encodable_analyzing_line encodable_normalized_line)
  next
    case False
    then have "\<not> list_all encodable (normalized_line (upper uc (strip content)))"
      by (simp only: encodable_normalized_line not_False_eq_True)
    from py_print_raises [OF this] obtain start stop where
      "py_print (normalized_line (upper uc (strip content)))
         (calls @ [analyze_prompt (get_history state) (email_content state)]) =
       (Inl (UnicodeEncodeError (normalized_line (upper uc (strip content))) start stop),
        calls @ [analyze_prompt (get_history state) (email_content state)])"
      by blast
    with assms True False show ?thesis
      by (simp add: analyze_email_def bind_io_def try_except_def return_io_def llm_invoke_def
          Let_def py_print_ok encodable_analyzing_line encodable_error_line
          encodable_str_of_encode_error del: str_of_exn.simps)
  qed
qed

lemma analyze_email_raises:
  assumes "llm calls (analyze_prompt (get_history state) (email_content state)) = Inl e"
    and "list_all encodable (str_of_exn e)"
  shows "analyze_email uc llm state calls =
           (Inr [(''category'', py ''OTHER'')],
            calls @ [analyze_prompt (get_history state) (email_content state)])"
  using assms
  by (simp add: analyze_email_def bind_io_def try_except_def return_io_def llm_invoke_def
      Let_def py_print_ok encodable_analyzing_line encodable_error_line
      del: str_of_exn.simps)

lemma analyze_email_handler_raises:
  assumes "llm calls (analyze_prompt (get_history state) (email_content state)) = Inl e"
    and "\<not> list_all encodable (str_of_exn e)"
  shows "\<exists>start stop. analyze_email uc llm state calls =
           (Inl (UnicodeEncodeError (error_line (str_of_exn e)) start stop),
            calls @ [analyze_prompt (get_history state) (email_content state)])"
proof -
  from assms(2) have "\<not> list_all encodable (error_line (str_of_exn e))"
    by (simp only: encodable_error_line not_False_eq_True)
  from py_print_raises [OF this] obtain start stop where
    "py_print (error_line (str_of_exn e))
       (calls @ [analyze_prompt (get_history state) (email_content state)]) =
     (Inl (UnicodeEncodeError (error_line (str_of_exn e)) start stop),
      calls @ [analyze_prompt (get_history state) (email_content state)])"
    by blast
  with assms(1) show ?thesis
    by (simp add: analyze_email_def bind_io_def try_except_def return_io_def llm_invoke_def
        Let_def py_print_ok encodable_analyzing_line del: str_of_exn.simps)
qed

text \<open>Node 2: the print comes first, then the SPAM test, then the call.\<close>

lemma draft_reply_print_raises:
  assumes "\<not> list_all encodable (category state)"
  shows "\<exists>start stop. draft_reply llm state calls =
           (Inl (UnicodeEncodeError (drafting_line (category state)) start stop), calls)"
proof -
  from assms have "\<not> list_all encodable (drafting_line (category state))"
    by (simp only: encodable_drafting_line not_False_eq_True)
  from py_print_raises [OF this, of calls] show ?thesis
    by (auto simp add: draft_reply_def bind_io_def)
qed

lemma draft_reply_spam:
  assumes "list_all encodable (category state)"
    and "str_in (py ''SPAM'') (category state)"
  shows "draft_reply llm state calls = (Inr [(''generated_reply'', py ''IGNORE'')], calls)"
  using assms
  by (simp add: draft_reply_def bind_io_def return_io_def Let_def py_print_ok
      encodable_drafting_line)

lemma draft_reply_returns:
  assumes "list_all encodable (category state)"
    and "\<not> str_in (py ''SPAM'') (category state)"
    and "llm calls (draft_prompt (category state) (get_history state) (email_content state))
           = Inr raw_reply"
  shows "draft_reply llm state calls =
           (Inr [(''generated_reply'', clean_reply raw_reply)],
            calls @ [draft_prompt (category state) (get_history state) (email_content state)])"
  using assms
  by (simp add: draft_reply_def bind_io_def try_except_def return_io_def llm_invoke_def Let_def
      py_print_ok encodable_drafting_line)

lemma draft_reply_raises:
  assumes "list_all encodable (category state)"
    and "\<not> str_in (py ''SPAM'') (category state)"
    and "llm calls (draft_prompt (category state) (get_history state) (email_content state))
           = Inl e"
  shows "draft_reply llm state calls =
           (Inr [(''generated_reply'',
                  py ''Thank you for your email. We will respond shortly.'')],
            calls @ [draft_prompt (category state) (get_history state) (email_content state)])"
  using assms
  by (simp add: draft_reply_def bind_io_def try_except_def return_io_def llm_invoke_def Let_def
      py_print_ok encodable_drafting_line)

lemma valid_contains_OTHER: "list_ex (\<lambda>v. str_in v (py ''OTHER'')) valid"
  by (simp add: valid_def)

lemma categorizer_returns_encodable:
  assumes "categorizer uc llm state calls = (Inr state', calls')"
  shows "list_all encodable (category state')"
proof (cases "llm calls (analyze_prompt (get_history state) (email_content state))")
  case (Inr content)
  from analyze_email_returns [where llm = llm and calls = calls and state = state and uc = uc]
    Inr assms
  show ?thesis
    by (auto simp add: categorizer_def run_node_def bind_io_def return_io_def
        apply_update_category encodable_small split: if_splits)
next
  case (Inl e)
  show ?thesis
  proof (cases "list_all encodable (str_of_exn e)")
    case True
    from analyze_email_raises [where llm = llm and calls = calls and state = state and uc = uc]
      Inl True assms
    show ?thesis
      by (auto simp add: categorizer_def run_node_def bind_io_def return_io_def
          apply_update_category encodable_small)
  next
    case False
    from analyze_email_handler_raises
      [where llm = llm and calls = calls and state = state and uc = uc] Inl False assms
    show ?thesis
      by (auto simp add: categorizer_def run_node_def bind_io_def)
  qed
qed

section \<open>The Categorize step\<close>

text \<open>
  C1 as stated fails: the step keeps the whole uppercased, trimmed output, not the
  label found in it. The output \<open>This looks like SPAM content\<close> contains SPAM and no
  other label, and the category becomes \<open>THIS LOOKS LIKE SPAM CONTENT\<close>, not \<open>SPAM\<close>.
\<close>

theorem categorize_spam_sentence_counterexample:
  "str_in (py ''SPAM'') (upper uc_ascii (strip (py ''This looks like SPAM content''))) \<and>
   \<not> str_in (py ''URGENT'') (upper uc_ascii (strip (py ''This looks like SPAM content''))) \<and>
   \<not> str_in (py ''LEAD'') (upper uc_ascii (strip (py ''This looks like SPAM content''))) \<and>
   \<not> str_in (py ''OTHER'') (upper uc_ascii (strip (py ''This looks like SPAM content''))) \<and>
   fst (categorizer uc_ascii (answers (Inr (py ''This looks like SPAM content''))) faucet [])
     = Inr (faucet\<lparr>category := py ''THIS LOOKS LIKE SPAM CONTENT''\<rparr>) \<and>
   fst (categorizer uc_ascii (answers (Inr (py ''This looks like SPAM content''))) faucet [])
     \<noteq> Inr (faucet\<lparr>category := py ''SPAM''\<rparr>)"
  by (simp add: categorizer_def run_node_def analyze_email_def bind_io_def try_except_def
      return_io_def py_print_def encode_error_def encodable_def analyzing_line_def
      normalized_line_def llm_invoke_def answers_def valid_def upper_def upper_cp_def
      strip_def isspace_def apply_update_def lookup_or_def faucet_def uc_ascii_def Let_def)

text \<open>
  C1, amended. For every model-client output whose uppercased, trimmed form contains
  one of the labels URGENT, LEAD, SPAM, OTHER as a substring and holds no surrogate
  code point, so that the console line of the step can be written, the Categorize
  step sets the category field to that uppercased, trimmed form itself, so the
  category contains the label; the client has been called once, with the prompt of
  the step.
\<close>

theorem categorize_keeps_normalized_output:
  assumes "llm calls (analyze_prompt (get_history state) (email_content state)) = Inr content"
    and "label \<in> set valid"
    and "str_in label (upper uc (strip content))"
    and "list_all encodable (upper uc (strip content))"
  shows "categorizer uc llm state calls =
           (Inr (state\<lparr>category := upper uc (strip content)\<rparr>),
            calls @ [analyze_prompt (get_history state) (email_content state)]) \<and>
         str_in label (upper uc (strip content))"
proof -
  from assms(2,3) have "list_ex (\<lambda>v. str_in v (upper uc (strip content))) valid"
    unfolding list_ex_iff by blast
  with analyze_email_returns [where llm = llm and calls = calls and state = state and uc = uc]
    assms(1,4)
  have "analyze_email uc llm state calls =
          (Inr [(''category'', upper uc (strip content))],
           calls @ [analyze_prompt (get_history state) (email_content state)])"
    by simp
  with assms(3) show ?thesis
    by (simp add: categorizer_def run_node_def bind_io_def return_io_def
        apply_update_category)
qed

theorem categorize_keeps_normalized_output_witness:
  "answers (Inr (py '' urgent: call me ''))
     [] (analyze_prompt (get_history faucet) (email_content faucet))
     = Inr (py '' urgent: call me '') \<and>
   py ''URGENT'' \<in> set valid \<and>
   str_in (py ''URGENT'') (upper uc_ascii (strip (py '' urgent: call me ''))) \<and>
   list_all encodable (upper uc_ascii (strip (py '' urgent: call me ''))) \<and>
   categorizer uc_ascii (answers (Inr (py '' urgent: call me ''))) faucet [] =
     (Inr (faucet\<lparr>category := py ''URGENT: CALL ME''\<rparr>),
      [analyze_prompt (get_history faucet) (email_content faucet)])"
proof -
  have h1: "answers (Inr (py '' urgent: call me ''))
     [] (analyze_prompt (get_history faucet) (email_content faucet))
     = Inr (py '' urgent: call me '')"
    by (simp add: answers_def)
  have h2: "py ''URGENT'' \<in> set valid"
    by (simp add: valid_def)
  have h3: "str_in (py ''URGENT'') (upper uc_ascii (strip (py '' urgent: call me '')))"
    by (simp add: upper_def upper_cp_def strip_def isspace_def uc_ascii_def)
  have h4: "list_all encodable (upper uc_ascii (strip (py '' urgent: call me '')))"
    by (simp add: upper_def upper_cp_def strip_def isspace_def uc_ascii_def encodable_def)
  from categorize_keeps_normalized_output
    [where llm = "answers (Inr (py '' urgent: call me ''))" and calls = "[]"
       and state = faucet and uc = uc_ascii and label = "py ''URGENT''"] h1 h2 h3 h4
  show ?thesis
    by (simp add: upper_def upper_cp_def strip_def isspace_def uc_ascii_def)
qed

text \<open>
  C2 as stated fails: after the step the category need not be one of the four labels.
  For the output \<open>Category: LEAD\<close> it is \<open>CATEGORY: LEAD\<close>.
\<close>

theorem categorize_not_member_counterexample:
  "fst (categorizer uc_ascii (answers (Inr (py ''Category: LEAD''))) faucet [])
     = Inr (faucet\<lparr>category := py ''CATEGORY: LEAD''\<rparr>) \<and>
   py ''CATEGORY: LEAD'' \<notin> set valid"
  by (simp add: categorizer_def run_node_def analyze_email_def bind_io_def try_except_def
      return_io_def py_print_def encode_error_def encodable_def analyzing_line_def
      normalized_line_def llm_invoke_def answers_def valid_def upper_def upper_cp_def
      strip_def isspace_def apply_update_def lookup_or_def faucet_def uc_ascii_def Let_def)

text \<open>
  C2, amended. After the Categorize step runs, whether the model client returns an
  output or raises an exception whose message holds no surrogate code point, the
  step has returned a state, and the category field of that state contains at least
  one of URGENT, LEAD, SPAM, OTHER as a substring.
\<close>

theorem categorize_category_contains_label:
  assumes "case llm calls (analyze_prompt (get_history state) (email_content state)) of
             Inr content \<Rightarrow> True
           | Inl e \<Rightarrow> list_all encodable (str_of_exn e)"
  shows "\<exists>state'. categorizer uc llm state calls =
           (Inr state', calls @ [analyze_prompt (get_history state) (email_content state)]) \<and>
         list_ex (\<lambda>v. str_in v (category state')) valid"
proof (cases "llm calls (analyze_prompt (get_history state) (email_content state))")
  case (Inl e)
  with assms have "list_all encodable (str_of_exn e)"
    by simp
  with analyze_email_raises [where llm = llm and calls = calls and state = state and uc = uc]
    Inl
  have "analyze_email uc llm state calls =
          (Inr [(''category'', py ''OTHER'')],
           calls @ [analyze_prompt (get_history state) (email_content state)])"
    by blast
  with valid_contains_OTHER show ?thesis
    by (simp add: categorizer_def run_node_def bind_io_def return_io_def
        apply_update_category)
next
  case (Inr content)
  from analyze_email_returns
    [where llm = llm and calls = calls and state = state and uc = uc and content = content]
    Inr valid_contains_OTHER
  show ?thesis
    by (simp add: categorizer_def run_node_def bind_io_def return_io_def
        apply_update_category)
qed

theorem categorize_category_contains_label_witness:
  "(\<exists>state'. categorizer uc_ascii (answers (Inr (py ''Category: LEAD''))) faucet [] =
       (Inr state', [] @ [analyze_prompt (get_history faucet) (email_content faucet)]) \<and>
     list_ex (\<lambda>v. str_in v (category state')) valid) \<and>
   list_all encodable (str_of_exn (Exception (py ''connection refused''))) \<and>
   (\<exists>state'. categorizer uc_ascii (answers (Inl (Exception (py ''connection refused''))))
       faucet [] =
       (Inr state', [] @ [analyze_prompt (get_history faucet) (email_content faucet)]) \<and>
     list_ex (\<lambda>v. str_in v (category state')) valid)"
proof -
  have h: "list_all encodable (str_of_exn (Exception (py ''connection refused'')))"
    by (simp add: encodable_def)
  from categorize_category_contains_label
    [where llm = "answers (Inr (py ''Category: LEAD''))" and calls = "[]" and state = faucet
       and uc = uc_ascii]
  have a: "\<exists>state'. categorizer uc_ascii (answers (Inr (py ''Category: LEAD''))) faucet [] =
       (Inr state', [] @ [analyze_prompt (get_history faucet) (email_content faucet)]) \<and>
     list_ex (\<lambda>v. str_in v (category state')) valid"
    by (simp add: answers_def)
  from categorize_category_contains_label
    [where llm = "answers (Inl (Exception (py ''connection refused'')))" and calls = "[]"
       and state = faucet and uc = uc_ascii] h
  have b: "\<exists>state'. categorizer uc_ascii
       (answers (Inl (Exception (py ''connection refused'')))) faucet [] =
       (Inr state', [] @ [analyze_prompt (get_history faucet) (email_content faucet)]) \<and>
     list_ex (\<lambda>v. str_in v (category state')) valid"
    by (simp add: answers_def)
  from a h b show ?thesis
    by blast
qed

text \<open>
  C5. For every model-client output whose uppercased, trimmed form contains none of
  the labels URGENT, LEAD, SPAM, OTHER as a substring, the empty output among them,
  the Categorize step sets the category field to OTHER.
\<close>

theorem categorize_no_label_gives_OTHER:
  assumes "llm calls (analyze_prompt (get_history state) (email_content state)) = Inr content"
    and "\<not> list_ex (\<lambda>v. str_in v (upper uc (strip content))) valid"
  shows "categorizer uc llm state calls =
           (Inr (state\<lparr>category := py ''OTHER''\<rparr>),
            calls @ [analyze_prompt (get_history state) (email_content state)])"
proof -
  from analyze_email_returns [where llm = llm and calls = calls and state = state and uc = uc]
    assms
  have "analyze_email uc llm state calls =
          (Inr [(''category'', py ''OTHER'')],
           calls @ [analyze_prompt (get_history state) (email_content state)])"
    by simp
  then show ?thesis
    by (simp add: categorizer_def run_node_def bind_io_def return_io_def
        apply_update_category)
qed

theorem categorize_no_label_gives_OTHER_witness:
  "answers (Inr (py '''')) [] (analyze_prompt (get_history faucet) (email_content faucet))
     = Inr (py '''') \<and>
   \<not> list_ex (\<lambda>v. str_in v (upper uc_ascii (strip (py '''')))) valid \<and>
   categorizer uc_ascii (answers (Inr (py ''''))) faucet [] =
     (Inr (faucet\<lparr>category := py ''OTHER''\<rparr>),
      [analyze_prompt (get_history faucet) (email_content faucet)])"
proof -
  have h1: "answers (Inr (py '''')) [] (analyze_prompt (get_history faucet) (email_content faucet))
     = Inr (py '''')"
    by (simp add: answers_def)
  have h2: "\<not> list_ex (\<lambda>v. str_in v (upper uc_ascii (strip (py '''')))) valid"
    by (simp add: valid_def upper_def strip_def)
  from categorize_no_label_gives_OTHER
    [where llm = "answers (Inr (py ''''))" and calls = "[]" and state = faucet
       and uc = uc_ascii] h1 h2
  show ?thesis
    by simp
qed

text \<open>
  C6 fails on the code. The handler of the Categorize step prints the message of the
  exception before it returns the default; when the message cannot be written to the
  console, here the single code point U+D800, that print raises inside the handler
  and the \<open>UnicodeEncodeError\<close> escapes the step, so no category is set. The endpoint
  then answers with the error dict.
\<close>

theorem categorize_handler_print_escapes:
  "answers (Inl (Exception [0xD800])) []
     (analyze_prompt (get_history faucet) (email_content faucet)) = Inl (Exception [0xD800]) \<and>
   categorizer uc_ascii (answers (Inl (Exception [0xD800]))) faucet [] =
     (Inl (UnicodeEncodeError (error_line [0xD800]) 24 25),
      [analyze_prompt (get_history faucet) (email_content faucet)]) \<and>
   fst (run_agent (app_agent uc_ascii (answers (Inl (Exception [0xD800])))) faucet_request []) =
     Inr [(''status'', py ''error''),
          (''detail'', str_of_exn (UnicodeEncodeError (error_line [0xD800]) 24 25))] \<and>
   str_of_exn (UnicodeEncodeError (error_line [0xD800]) 24 25) =
     sq @ py ''utf-8'' @ sq @ py '' codec can'' @ sq @ py ''t encode character '' @
     sq @ bs @ py ''ud800'' @ sq @ py '' in position 24: surrogates not allowed''"
proof -
  have raised: "answers (Inl (Exception [0xD800])) []
     (analyze_prompt (get_history faucet) (email_content faucet)) = Inl (Exception [0xD800])"
    by (simp add: answers_def)
  have step: "categorizer uc_ascii (answers (Inl (Exception [0xD800]))) faucet [] =
     (Inl (UnicodeEncodeError (error_line [0xD800]) 24 25),
      [analyze_prompt (get_history faucet) (email_content faucet)])"
    by (simp add: categorizer_def run_node_def analyze_email_def bind_io_def try_except_def
        py_print_def encode_error_def encodable_def analyzing_line_def error_line_def
        llm_invoke_def answers_def Let_def)
  have printed: "py_print (processing_line (req_input faucet_request)) [] = (Inr (), [])"
    by (simp add: py_print_def encode_error_def encodable_def processing_line_def
        faucet_request_def Let_def)
  have start: "initial_state faucet_request = faucet"
    by (simp add: initial_state_def faucet_request_def faucet_def)
  have run: "fst (run_agent (app_agent uc_ascii (answers (Inl (Exception [0xD800]))))
      faucet_request []) =
     Inr [(''status'', py ''error''),
          (''detail'', str_of_exn (UnicodeEncodeError (error_line [0xD800]) 24 25))]"
    by (simp add: run_agent_def app_agent_def bind_io_def try_except_def return_io_def
        printed start step del: str_of_exn.simps)
  have message: "str_of_exn (UnicodeEncodeError (error_line [0xD800]) 24 25) =
     sq @ py ''utf-8'' @ sq @ py '' codec can'' @ sq @ py ''t encode character '' @
     sq @ bs @ py ''ud800'' @ sq @ py '' in position 24: surrogates not allowed''"
    by (simp add: error_line_def dec.simps hex4_def hex2_def hexdigit_def sq_def bs_def)
  from raised step run message show ?thesis
    by (simp only: simp_thms)
qed

section \<open>The Draft Reply step\<close>

text \<open>
  C3 as stated fails: a category that is not SPAM but contains it, such as
  \<open>NOT SPAM, A LEAD\<close>, makes the step return IGNORE without calling the client, though
  the client would have answered.
\<close>

theorem draft_not_spam_counterexample:
  "category (faucet\<lparr>category := py ''NOT SPAM, A LEAD''\<rparr>) \<noteq> py ''SPAM'' \<and>
   answers (Inr (py ''Hello'')) []
     (draft_prompt (py ''NOT SPAM, A LEAD'') (get_history faucet) (email_content faucet))
     = Inr (py ''Hello'') \<and>
   writer (answers (Inr (py ''Hello''))) (faucet\<lparr>category := py ''NOT SPAM, A LEAD''\<rparr>) [] =
     (Inr (faucet\<lparr>category := py ''NOT SPAM, A LEAD'', generated_reply := py ''IGNORE''\<rparr>), []) \<and>
   fst (writer (answers (Inr (py ''Hello''))) (faucet\<lparr>category := py ''NOT SPAM, A LEAD''\<rparr>) [])
     \<noteq> Inr (faucet\<lparr>category := py ''NOT SPAM, A LEAD'',
                    generated_reply := clean_reply (py ''Hello'')\<rparr>)"
  by (simp add: writer_def run_node_def draft_reply_def bind_io_def return_io_def py_print_def
      encode_error_def encodable_def drafting_line_def answers_def apply_update_def
      lookup_or_def faucet_def clean_reply_def strip_def isspace_def Let_def)

text \<open>
  C3, amended. For every state whose category does not contain SPAM as a substring
  and holds no surrogate code point, so that the console line of the step can be
  written, if the model client succeeds during drafting then the Draft Reply step
  invokes the model, once and with the prompt of the step, and sets generated_reply
  to \<open>clean_reply\<close> of the raw model output, which is the output with its leading and
  trailing whitespace trimmed.
\<close>

theorem draft_sanitizes_model_output:
  assumes "\<not> str_in (py ''SPAM'') (category state)"
    and "list_all encodable (category state)"
    and "llm calls (draft_prompt (category state) (get_history state) (email_content state))
           = Inr raw_reply"
  shows "writer llm state calls =
           (Inr (state\<lparr>generated_reply := clean_reply raw_reply\<rparr>),
            calls @ [draft_prompt (category state) (get_history state) (email_content state)]) \<and>
         clean_reply raw_reply = strip raw_reply"
  using draft_reply_returns [where llm = llm and calls = calls and state = state] assms
  by (simp add: writer_def run_node_def bind_io_def return_io_def
      apply_update_generated_reply clean_reply_def)

theorem draft_sanitizes_model_output_witness:
  "\<not> str_in (py ''SPAM'') (category (faucet\<lparr>category := py ''URGENT''\<rparr>)) \<and>
   list_all encodable (category (faucet\<lparr>category := py ''URGENT''\<rparr>)) \<and>
   answers (Inr (py '' On my way. '')) []
     (draft_prompt (category (faucet\<lparr>category := py ''URGENT''\<rparr>))
        (get_history (faucet\<lparr>category := py ''URGENT''\<rparr>))
        (email_content (faucet\<lparr>category := py ''URGENT''\<rparr>)))
     = Inr (py '' On my way. '') \<and>
   writer (answers (Inr (py '' On my way. ''))) (faucet\<lparr>category := py ''URGENT''\<rparr>) [] =
     (Inr (faucet\<lparr>category := py ''URGENT'', generated_reply := py ''On my way.''\<rparr>),
      [draft_prompt (py ''URGENT'') (get_history faucet) (email_content faucet)])"
proof -
  have h1: "\<not> str_in (py ''SPAM'') (category (faucet\<lparr>category := py ''URGENT''\<rparr>))"
    by simp
  have h2: "list_all encodable (category (faucet\<lparr>category := py ''URGENT''\<rparr>))"
    by (simp add: encodable_def)
  have h3: "answers (Inr (py '' On my way. '')) []
     (draft_prompt (category (faucet\<lparr>category := py ''URGENT''\<rparr>))
        (get_history (faucet\<lparr>category := py ''URGENT''\<rparr>))
        (email_content (faucet\<lparr>category := py ''URGENT''\<rparr>)))
     = Inr (py '' On my way. '')"
    by (simp add: answers_def)
  from draft_sanitizes_model_output
    [where llm = "answers (Inr (py '' On my way. ''))" and calls = "[]"
       and state = "faucet\<lparr>category := py ''URGENT''\<rparr>"] h1 h2 h3
  show ?thesis
    by (simp add: clean_reply_def strip_def isspace_def get_history_def)
qed

text \<open>
  C4. For every state whose category is SPAM, the Draft Reply step sets generated_reply
  to the sentinel IGNORE and does not invoke the model client: the list of the calls
  made is the one the step started with.
\<close>

theorem draft_spam_gives_IGNORE:
  assumes "category state = py ''SPAM''"
  shows "writer llm state calls = (Inr (state\<lparr>generated_reply := py ''IGNORE''\<rparr>), calls)"
proof -
  from assms have spam: "str_in (py ''SPAM'') (category state)"
    by simp
  from assms have "list_all encodable (category state)"
    by (simp only: encodable_py)
  from draft_reply_spam [OF this spam] show ?thesis
    by (simp add: writer_def run_node_def bind_io_def return_io_def
        apply_update_generated_reply)
qed

theorem draft_spam_gives_IGNORE_witness:
  "category (faucet\<lparr>category := py ''SPAM''\<rparr>) = py ''SPAM'' \<and>
   writer (answers (Inr (py ''Hello''))) (faucet\<lparr>category := py ''SPAM''\<rparr>) [] =
     (Inr (faucet\<lparr>category := py ''SPAM'', generated_reply := py ''IGNORE''\<rparr>), [])"
proof -
  have h: "category (faucet\<lparr>category := py ''SPAM''\<rparr>) = py ''SPAM''"
    by simp
  from draft_spam_gives_IGNORE [OF h, of "answers (Inr (py ''Hello''))" "[]"] h
  show ?thesis
    by simp
qed




text \<open>
  C7. If the model client raises during the Draft Reply step, that is, the step sends
  a prompt to the client and the outcome of that call is an exception, then the step
  catches it: it returns a state, with generated_reply set to the fixed string
  \<open>Thank you for your email. We will respond shortly.\<close>
\<close>

theorem draft_client_raises_gives_fallback:
  assumes "writer llm state calls = (r, calls @ [prompt])"
    and "llm calls prompt = Inl e"
  shows "r = Inr (state\<lparr>generated_reply :=
                      py ''Thank you for your email. We will respond shortly.''\<rparr>)"
proof (cases "list_all encodable (category state)")
  case False
  from draft_reply_print_raises [OF False, of llm calls] assms(1) show ?thesis
    by (auto simp add: writer_def run_node_def bind_io_def)
next
  case printable: True
  show ?thesis
  proof (cases "str_in (py ''SPAM'') (category state)")
    case True
    from draft_reply_spam [OF printable True, of llm calls] assms(1) show ?thesis
      by (simp add: writer_def run_node_def bind_io_def return_io_def)
  next
    case False
    show ?thesis
    proof (cases "llm calls
        (draft_prompt (category state) (get_history state) (email_content state))")
      case (Inl e')
      from draft_reply_raises [where llm = llm and calls = calls and state = state]
        printable False Inl assms(1)
      show ?thesis
        by (auto simp add: writer_def run_node_def bind_io_def return_io_def
            apply_update_generated_reply)
    next
      case (Inr raw_reply)
      from draft_reply_returns [where llm = llm and calls = calls and state = state]
        printable False Inr assms(1)
      have "prompt = draft_prompt (category state) (get_history state) (email_content state)"
        by (simp add: writer_def run_node_def bind_io_def return_io_def)
      with Inr assms(2) show ?thesis
        by simp
    qed
  qed
qed

theorem draft_client_raises_gives_fallback_witness:
  "writer (answers (Inl (Exception (py ''timed out'')))) (faucet\<lparr>category := py ''LEAD''\<rparr>) [] =
     (Inr (faucet\<lparr>category := py ''LEAD'', generated_reply :=
             py ''Thank you for your email. We will respond shortly.''\<rparr>),
      [] @ [draft_prompt (py ''LEAD'') (get_history faucet) (email_content faucet)]) \<and>
   answers (Inl (Exception (py ''timed out''))) []
     (draft_prompt (py ''LEAD'') (get_history faucet) (email_content faucet))
     = Inl (Exception (py ''timed out''))"
proof -
  have h1: "writer (answers (Inl (Exception (py ''timed out''))))
      (faucet\<lparr>category := py ''LEAD''\<rparr>) [] =
     (fst (writer (answers (Inl (Exception (py ''timed out''))))
        (faucet\<lparr>category := py ''LEAD''\<rparr>) []),
      [] @ [draft_prompt (py ''LEAD'') (get_history faucet) (email_content faucet)])"
    by (simp add: writer_def run_node_def draft_reply_def bind_io_def try_except_def
        return_io_def py_print_def encode_error_def encodable_def drafting_line_def
        llm_invoke_def answers_def get_history_def Let_def)
  have h2: "answers (Inl (Exception (py ''timed out''))) []
     (draft_prompt (py ''LEAD'') (get_history faucet) (email_content faucet))
     = Inl (Exception (py ''timed out''))"
    by (simp add: answers_def)
  from draft_client_raises_gives_fallback [OF h1 h2] h1 h2 show ?thesis
    by simp
qed

section \<open>The endpoint\<close>



end
